theory Spec2Isabelle
  imports Complex_Main
begin

section \<open>Exceptions\<close>

text \<open>
  The Python exceptions that the modelled functions raise or let through. A function that
  can raise returns a sum, with \<open>Inl\<close> for the exception.
\<close>

datatype py_exn =
    PropertyNotImplementedError
  | RuntimeError
  | TypeError
  | IndexError
  | AssertionError

section \<open>\<open>ase/calculators/dftd3.py\<close>: \<open>DFTD3.get_property\<close>\<close>

text \<open>
  A calculator's \<open>get_property(name, atoms, allow_calculation)\<close> may run a calculation and
  cache its results, so it is a function of a state \<open>'s\<close> (the calculators, their caches and
  the files they write) that returns the new state next to its outcome. The outcome is an
  exception, Python's \<open>None\<close> or a result \<open>'v\<close> (a float or an array, added with \<open>+\<close>).
  \<open>atoms\<close> is an optional argument (\<open>atoms=None\<close>).
\<close>

type_synonym ('s, 'a, 'v) get_property_fn =
  "string \<Rightarrow> 'a option \<Rightarrow> bool \<Rightarrow> 's \<Rightarrow> (py_exn + 'v option) \<times> 's"

text \<open>
  Lines 379 to 381: \<open>dft_result\<close> is \<open>None\<close> unless a DFT calculator is attached
  (\<open>self.dft is not None\<close>), and then it is what that calculator's own
  \<open>get_property\<close> returns.
\<close>

definition dft_get_property ::
  "('s, 'a, 'v) get_property_fn option \<Rightarrow> ('s, 'a, 'v) get_property_fn" where
  "dft_get_property dft name atoms allow_calculation s =
     (case dft of
        None \<Rightarrow> (Inr None, s)
      | Some d \<Rightarrow> d name atoms allow_calculation s)"

text \<open>
  \<open>DFTD3.get_property\<close>. \<open>FileIOCalculator_get_property\<close> is the method of the base class
  (\<open>ase.calculators.calculator\<close>), called on the DFTD3 object itself after the attached
  calculator was asked. An exception of either call leaves \<open>get_property\<close> at once.
\<close>

definition get_property ::
  "('s, 'a, 'v::plus) get_property_fn \<Rightarrow> ('s, 'a, 'v) get_property_fn option \<Rightarrow>
     ('s, 'a, 'v) get_property_fn" where
  "get_property FileIOCalculator_get_property dft name atoms allow_calculation s =
     (case dft_get_property dft name atoms allow_calculation s of
        (Inl e, s1) \<Rightarrow> (Inl e, s1)
      | (Inr dft_result, s1) \<Rightarrow>
          (case FileIOCalculator_get_property name atoms allow_calculation s1 of
             (Inl e, s2) \<Rightarrow> (Inl e, s2)
           | (Inr dftd3_result, s2) \<Rightarrow>
               (case (dft_result, dftd3_result) of
                  (None, None) \<Rightarrow> (Inr None, s2)
                | (None, Some y) \<Rightarrow> (Inr (Some y), s2)
                | (Some x, None) \<Rightarrow> (Inr (Some x), s2)
                | (Some x, Some y) \<Rightarrow> (Inr (Some (x + y)), s2))))"

section \<open>\<open>ase/io/xsf.py\<close>: \<open>write_xsf\<close>\<close>




type_synonym vec3 = "real \<times> real \<times> real"

text \<open>
  An image is an \<open>Atoms\<close> object (\<open>ase.atoms\<close>); the fields hold what its methods return.
  \<open>forces_over_Hartree\<close> is \<open>atoms.get_forces() / Hartree\<close> when the image has a calculator
  that needs no new calculation for the forces (lines 63 to 67), and \<open>None\<close> otherwise
  (lines 68 and 69).
\<close>

record atoms =
  get_atomic_numbers :: "nat list"
  get_pbc :: "bool \<times> bool \<times> bool"
  get_cell :: "vec3 \<times> vec3 \<times> vec3"
  get_positions :: "vec3 list"
  forces_over_Hartree :: "vec3 list option"



































section \<open>\<open>ase/dft/wannier.py\<close>: \<open>neighbor_k_search\<close>\<close>

text \<open>
  A k-point is a vector of three fractional coordinates, a reciprocal lattice translation a
  vector of three integers. Coordinates are exact reals.
\<close>

type_synonym kvec = "real \<times> real \<times> real"
type_synonym ivec = "int \<times> int \<times> int"

text \<open>
  \<open>kpt_kc[kk] - k_c - Gdir_c\<close>, the sum of such an offset and a translation \<open>k0\<close>, and
  \<open>np.linalg.norm\<close>, as \<open>test_neighbor_k_search\<close> (ase/test/test_wannier.py, line 209)
  combines them.
\<close>

definition mesh_offset :: "kvec \<Rightarrow> kvec \<Rightarrow> kvec \<Rightarrow> kvec" where
  "mesh_offset kpt_c k_c Gdir_c =
     (case (kpt_c, k_c, Gdir_c) of ((p1, p2, p3), (k1, k2, k3), (g1, g2, g3)) \<Rightarrow>
        (p1 - k1 - g1, p2 - k2 - g2, p3 - k3 - g3))"

definition translate_by :: "kvec \<Rightarrow> ivec \<Rightarrow> kvec" where
  "translate_by d k0 =
     (case (d, k0) of ((d1, d2, d3), (n1, n2, n3)) \<Rightarrow>
        (d1 + of_int n1, d2 + of_int n2, d3 + of_int n3))"

definition linalg_norm :: "kvec \<Rightarrow> real" where
  "linalg_norm v = (case v of (x, y, z) \<Rightarrow> sqrt (x\<^sup>2 + y\<^sup>2 + z\<^sup>2))"

text \<open>
  Modelled from the spec: \<open>neighbor_k_search\<close> of ase/dft/wannier.py, which is called by
  the tests but is not among the source files. Section 4.2 of the specification: for a
  given k-point and direction it finds the index \<open>kk\<close> of the mesh point such that
  \<open>kpt_kc[kk] - k_c - Gdir_c\<close> is an integer vector \<open>-k0\<close> within the tolerance \<open>tol\<close>, and
  fails if no mesh point satisfies this. \<open>nearest_translation\<close> is the integer vector
  \<open>k0\<close> tried for a mesh point: the one that brings its offset nearest to zero.
\<close>

definition nearest_translation :: "kvec \<Rightarrow> ivec" where
  "nearest_translation d = (case d of (d1, d2, d3) \<Rightarrow> (- round d1, - round d2, - round d3))"

text \<open>
  Modelled from the spec: the scan of \<open>neighbor_k_search\<close> (ase/dft/wannier.py, not among
  the source files) over the mesh points, in their order, from the index \<open>kk\<close> on. It stops
  at the first mesh point whose offset is an integer vector within \<open>tol\<close> and returns its
  index with the translation \<open>k0\<close>; \<open>None\<close> is the failure of section 4.2 (the sentinel).
\<close>

fun search_mesh :: "kvec \<Rightarrow> kvec \<Rightarrow> real \<Rightarrow> nat \<Rightarrow> kvec list \<Rightarrow> (nat \<times> ivec) option" where
  "search_mesh k_c Gdir_c tol kk [] = None"
| "search_mesh k_c Gdir_c tol kk (kpt_c # rest) =
     (let d = mesh_offset kpt_c k_c Gdir_c; k0 = nearest_translation d in
      if linalg_norm (translate_by d k0) < tol then Some (kk, k0)
      else search_mesh k_c Gdir_c tol (Suc kk) rest)"

text \<open>
  Modelled from the spec: \<open>neighbor_k_search(k_c, Gdir_c, kpt_kc, tol)\<close> of
  ase/dft/wannier.py, not among the source files, as section 4.2 describes it: the scan of
  the whole mesh \<open>kpt_kc\<close>.
\<close>

definition neighbor_k_search :: "kvec \<Rightarrow> kvec \<Rightarrow> kvec list \<Rightarrow> real \<Rightarrow> (nat \<times> ivec) option" where
  "neighbor_k_search k_c Gdir_c kpt_kc tol = search_mesh k_c Gdir_c tol 0 kpt_kc"

text \<open>
  The assertion of \<open>test_neighbor_k_search\<close> on a returned pair:
  \<open>np.linalg.norm(kpt_kc[kk] - k_c - Gdir_c + k0) < tol\<close>.
\<close>

definition within_tol :: "kvec list \<Rightarrow> kvec \<Rightarrow> kvec \<Rightarrow> real \<Rightarrow> nat \<Rightarrow> ivec \<Rightarrow> bool" where
  "within_tol kpt_kc k_c Gdir_c tol kk k0 \<longleftrightarrow>
     linalg_norm (translate_by (mesh_offset (kpt_kc ! kk) k_c Gdir_c) k0) < tol"

section \<open>Properties of \<open>DFTD3.get_property\<close>\<close>

text \<open>
  Claim C9. For every property name: when the attached DFT calculator, asked with
  \<open>get_property(name, atoms, allow_calculation)\<close>, and then the dftd3 calculation, asked
  with the same arguments, both return, \<open>DFTD3.get_property\<close> returns \<open>None\<close> when both
  results are \<open>None\<close>, the one available result when exactly one of them is not \<open>None\<close>,
  and their sum when both are available. With no DFT calculator attached the DFT result
  is \<open>None\<close> and only the dftd3 calculation is asked.
\<close>

theorem get_property_combines:
  assumes "case dft of
        None \<Rightarrow> dft_result = None \<and> s1 = s
      | Some d \<Rightarrow> d name atoms allow s = (Inr dft_result, s1)"
    and "base name atoms allow s1 = (Inr dftd3_result, s2)"
  shows "\<exists>r. get_property base dft name atoms allow s = (Inr r, s2) \<and>
    (dft_result = None \<and> dftd3_result = None \<longrightarrow> r = None) \<and>
    (dft_result = None \<and> dftd3_result \<noteq> None \<longrightarrow> r = dftd3_result) \<and>
    (dft_result \<noteq> None \<and> dftd3_result = None \<longrightarrow> r = dft_result) \<and>
    (\<forall>x y. dft_result = Some x \<and> dftd3_result = Some y \<longrightarrow> r = Some (x + y))"
  using assms
  by (auto simp: get_property_def dft_get_property_def split: option.splits)



theorem get_property_combines_witness:
  "get_property (\<lambda>n a c s. (Inr (if n = ''energy'' \<and> c then Some (3::int) else None), ''dftd3'' # s))
      (Some (\<lambda>n a c s. (Inr (if n = ''energy'' \<and> c then Some 2 else if n = ''dipole'' then Some 7 else None),
         ''dft'' # s))) ''energy'' (None :: unit option) True []
     = (Inr (Some 5), [''dftd3'', ''dft''])
   \<and> get_property (\<lambda>n a c s. (Inr (if n = ''energy'' \<and> c then Some (3::int) else None), ''dftd3'' # s))
      (Some (\<lambda>n a c s. (Inr (if n = ''energy'' \<and> c then Some 2 else if n = ''dipole'' then Some 7 else None),
         ''dft'' # s))) ''dipole'' (None :: unit option) True []
     = (Inr (Some 7), [''dftd3'', ''dft''])
   \<and> get_property (\<lambda>n a c s. (Inr (if n = ''energy'' \<and> c then Some (3::int) else None), ''dftd3'' # s))
      None ''energy'' (None :: unit option) True []
     = (Inr (Some 3), [''dftd3''])
   \<and> get_property (\<lambda>n a c s. (Inr (if n = ''energy'' \<and> c then Some (3::int) else None), ''dftd3'' # s))
      None ''energy'' (None :: unit option) False []
     = (Inr None, [''dftd3''])"
  (is "?A \<and> ?B \<and> ?C \<and> ?D")
proof -
  let ?base = "\<lambda>(n::string) (a::unit option) (c::bool) (s::string list).
    (Inr (if n = ''energy'' \<and> c then Some (3::int) else None) :: py_exn + int option,
     ''dftd3'' # s)"
  let ?d = "\<lambda>(n::string) (a::unit option) (c::bool) (s::string list).
    (Inr (if n = ''energy'' \<and> c then Some (2::int) else if n = ''dipole'' then Some 7 else None)
       :: py_exn + int option, ''dft'' # s)"
  have a: ?A
    using get_property_combines [where dft = "Some ?d" and dft_result = "Some 2" and ?s1.0 = "[''dft'']"
        and s = "[]" and name = "''energy''" and atoms = None and allow = True
        and base = ?base and dftd3_result = "Some 3" and ?s2.0 = "[''dftd3'', ''dft'']"]
    by simp
  have b: ?B
    using get_property_combines [where dft = "Some ?d" and dft_result = "Some 7" and ?s1.0 = "[''dft'']"
        and s = "[]" and name = "''dipole''" and atoms = None and allow = True
        and base = ?base and dftd3_result = "None" and ?s2.0 = "[''dftd3'', ''dft'']"]
    by simp
  have c: ?C
    using get_property_combines [where dft = "None" and dft_result = "None" and ?s1.0 = "[]"
        and s = "[]" and name = "''energy''" and atoms = None and allow = True
        and base = ?base and dftd3_result = "Some 3" and ?s2.0 = "[''dftd3'']"]
    by simp
  have d: ?D
    using get_property_combines [where dft = "None" and dft_result = "None" and ?s1.0 = "[]"
        and s = "[]" and name = "''energy''" and atoms = None and allow = False
        and base = ?base and dftd3_result = "None" and ?s2.0 = "[''dftd3'']"]
    by simp
  from a b c d show ?thesis by blast
qed

section \<open>Properties of \<open>write_xsf\<close>\<close>












section \<open>Properties of \<open>neighbor_k_search\<close>\<close>

lemma sq_round_le: "(x - of_int (round x))\<^sup>2 \<le> (x + of_int n)\<^sup>2" for x :: real
proof -
  have "\<bar>x - of_int (round x)\<bar> \<le> \<bar>x - of_int (- n)\<bar>" by (rule round_diff_minimal)
  then have "\<bar>x - of_int (round x)\<bar> \<le> \<bar>x + of_int n\<bar>" by simp
  then show ?thesis by (simp only: abs_le_square_iff)
qed

lemma nearest_translation_minimal:
  "linalg_norm (translate_by d (nearest_translation d)) \<le> linalg_norm (translate_by d k0)"
proof -
  obtain d1 d2 d3 where d: "d = (d1, d2, d3)" by (cases d) auto
  obtain n1 n2 n3 where k0: "k0 = (n1, n2, n3)" by (cases k0) auto
  have "(d1 - of_int (round d1))\<^sup>2 + (d2 - of_int (round d2))\<^sup>2 + (d3 - of_int (round d3))\<^sup>2
      \<le> (d1 + of_int n1)\<^sup>2 + (d2 + of_int n2)\<^sup>2 + (d3 + of_int n3)\<^sup>2"
    by (intro add_mono sq_round_le)
  then show ?thesis
    by (simp add: d k0 linalg_norm_def translate_by_def nearest_translation_def)
qed

lemma search_mesh_sound:
  "search_mesh k_c Gdir_c tol i ps = Some (kk, k0) \<Longrightarrow>
   i \<le> kk \<and> kk < i + length ps \<and>
   linalg_norm (translate_by (mesh_offset (ps ! (kk - i)) k_c Gdir_c) k0) < tol"
proof (induction ps arbitrary: i)
  case Nil
  then show ?case by simp
next
  case (Cons p ps)
  show ?case
  proof (cases "linalg_norm (translate_by (mesh_offset p k_c Gdir_c)
      (nearest_translation (mesh_offset p k_c Gdir_c))) < tol")
    case True
    with Cons.prems show ?thesis by (simp add: Let_def)
  next
    case False
    with Cons.prems have "search_mesh k_c Gdir_c tol (Suc i) ps = Some (kk, k0)"
      by (simp add: Let_def)
    from Cons.IH [OF this] show ?thesis by (auto simp: Suc_diff_Suc)
  qed
qed

lemma search_mesh_None:
  "search_mesh k_c Gdir_c tol i ps = None \<longleftrightarrow>
   (\<forall>j<length ps. \<forall>k0. \<not> linalg_norm (translate_by (mesh_offset (ps ! j) k_c Gdir_c) k0) < tol)"
proof (induction ps arbitrary: i)
  case Nil
  then show ?case by simp
next
  case (Cons p ps)
  let ?d = "mesh_offset p k_c Gdir_c"
  show ?case
  proof (cases "linalg_norm (translate_by ?d (nearest_translation ?d)) < tol")
    case True
    then have "0 < length (p # ps) \<and>
        linalg_norm (translate_by (mesh_offset ((p # ps) ! 0) k_c Gdir_c)
          (nearest_translation ?d)) < tol"
      by simp
    then have "\<exists>j<length (p # ps). \<exists>k0.
        linalg_norm (translate_by (mesh_offset ((p # ps) ! j) k_c Gdir_c) k0) < tol"
      by blast
    with True show ?thesis by (auto simp: Let_def)
  next
    case False
    have none_p: "\<not> linalg_norm (translate_by ?d k0) < tol" for k0
      using False nearest_translation_minimal [of ?d k0] by linarith
    have "search_mesh k_c Gdir_c tol i (p # ps) = search_mesh k_c Gdir_c tol (Suc i) ps"
      using False by (simp add: Let_def)
    also have "\<dots> = None \<longleftrightarrow>
      (\<forall>j<length ps. \<forall>k0. \<not> linalg_norm (translate_by (mesh_offset (ps ! j) k_c Gdir_c) k0) < tol)"
      by (rule Cons.IH)
    also have "\<dots> \<longleftrightarrow> (\<forall>j<length (p # ps). \<forall>k0.
        \<not> linalg_norm (translate_by (mesh_offset ((p # ps) ! j) k_c Gdir_c) k0) < tol)"
      using none_p by (auto simp: less_Suc_eq_0_disj)
    finally show ?thesis .
  qed
qed

text \<open>
  Claim C2. A pair \<open>(kk, k0)\<close> returned by \<open>neighbor_k_search\<close> is an index of the mesh and
  an integer translation with the norm of \<open>kpt_kc[kk] - k_c - Gdir_c + k0\<close> below \<open>tol\<close>;
  the search fails exactly when no mesh point and no integer translation are within the
  tolerance; and on a mesh that holds the periodic neighbour of \<open>k_c\<close> in the direction
  \<open>Gdir_c\<close> (some mesh point is \<open>k_c + Gdir_c\<close> up to an integer translation, the invariant
  that section 3 of the specification states for the k-point mesh) it returns such a pair
  for every positive tolerance.
\<close>

theorem neighbor_k_search_finds_neighbor:
  "(\<forall>kk k0. neighbor_k_search k_c Gdir_c kpt_kc tol = Some (kk, k0) \<longrightarrow>
      kk < length kpt_kc \<and> within_tol kpt_kc k_c Gdir_c tol kk k0) \<and>
   (neighbor_k_search k_c Gdir_c kpt_kc tol = None \<longleftrightarrow>
      \<not> (\<exists>kk<length kpt_kc. \<exists>k0. within_tol kpt_kc k_c Gdir_c tol kk k0)) \<and>
   (0 < tol \<and>
    (\<exists>kk<length kpt_kc. \<exists>k0.
       translate_by (mesh_offset (kpt_kc ! kk) k_c Gdir_c) k0 = (0, 0, 0)) \<longrightarrow>
    (\<exists>kk k0. neighbor_k_search k_c Gdir_c kpt_kc tol = Some (kk, k0) \<and>
       kk < length kpt_kc \<and> within_tol kpt_kc k_c Gdir_c tol kk k0))"
proof -
  have sound: "kk < length kpt_kc \<and> within_tol kpt_kc k_c Gdir_c tol kk k0"
    if "neighbor_k_search k_c Gdir_c kpt_kc tol = Some (kk, k0)" for kk k0
    using search_mesh_sound [of k_c Gdir_c tol 0 kpt_kc kk k0] that
    by (simp add: neighbor_k_search_def within_tol_def)
  have fails: "neighbor_k_search k_c Gdir_c kpt_kc tol = None \<longleftrightarrow>
      \<not> (\<exists>kk<length kpt_kc. \<exists>k0. within_tol kpt_kc k_c Gdir_c tol kk k0)"
    using search_mesh_None [of k_c Gdir_c tol 0 kpt_kc]
    by (auto simp: neighbor_k_search_def within_tol_def)
  have finds: "\<exists>kk k0. neighbor_k_search k_c Gdir_c kpt_kc tol = Some (kk, k0) \<and>
       kk < length kpt_kc \<and> within_tol kpt_kc k_c Gdir_c tol kk k0"
    if pos: "0 < tol"
      and nb: "\<exists>kk<length kpt_kc. \<exists>k0.
        translate_by (mesh_offset (kpt_kc ! kk) k_c Gdir_c) k0 = (0, 0, 0)"
  proof -
    from nb obtain j k0 where j: "j < length kpt_kc"
      and z: "translate_by (mesh_offset (kpt_kc ! j) k_c Gdir_c) k0 = (0, 0, 0)"
      by blast
    from z pos have "within_tol kpt_kc k_c Gdir_c tol j k0"
      by (simp add: within_tol_def linalg_norm_def)
    with j fails have "neighbor_k_search k_c Gdir_c kpt_kc tol \<noteq> None"
      by blast
    then obtain kk k0' where r: "neighbor_k_search k_c Gdir_c kpt_kc tol = Some (kk, k0')"
      by (cases "neighbor_k_search k_c Gdir_c kpt_kc tol") auto
    with sound [OF r] show ?thesis by blast
  qed
  from sound fails finds show ?thesis by blast
qed

theorem neighbor_k_search_finds_neighbor_witness:
  "(0::real) < 1/10000 \<and>
   translate_by (mesh_offset ([(- 1/4, 0, 0), (1/4, 0, 0)] ! 0) (1/4, 0, 0) (1/2, 0, 0)) (1, 0, 0)
     = (0, 0, 0) \<and>
   neighbor_k_search (1/4, 0, 0) (1/2, 0, 0) [(- 1/4, 0, 0), (1/4, 0, 0)] (1/10000)
     = Some (0, (1, 0, 0)) \<and>
   (0::nat) < length [(- 1/4, 0, 0), (1/4, 0, 0) :: kvec] \<and>
   within_tol [(- 1/4, 0, 0), (1/4, 0, 0)] (1/4, 0, 0) (1/2, 0, 0) (1/10000) 0 (1, 0, 0) \<and>
   neighbor_k_search (0, 0, 0) (1/2, 0, 0) [(0, 0, 0), (1/3, 0, 0)] (1/10000) = None \<and>
   \<not> within_tol [(0, 0, 0), (1/3, 0, 0)] (0, 0, 0) (1/2, 0, 0) (1/10000) 1 (0, 0, 0)"
proof -
  have exact: "translate_by (mesh_offset ([(- 1/4, 0, 0), (1/4, 0, 0)] ! 0) (1/4, 0, 0)
      (1/2, 0, 0)) (1, 0, 0) = (0, 0, 0)"
    by (simp add: mesh_offset_def translate_by_def)
  have found: "neighbor_k_search (1/4, 0, 0) (1/2, 0, 0) [(- 1/4, 0, 0), (1/4, 0, 0)] (1/10000)
      = Some (0, (1, 0, 0))"
    by (simp add: neighbor_k_search_def mesh_offset_def translate_by_def linalg_norm_def
        nearest_translation_def round_def)
  have failed: "neighbor_k_search (0, 0, 0) (1/2, 0, 0) [(0, 0, 0), (1/3, 0, 0)] (1/10000)
      = None"
    by (simp add: neighbor_k_search_def mesh_offset_def translate_by_def linalg_norm_def
        nearest_translation_def round_def)
  from neighbor_k_search_finds_neighbor
    [of "(1/4, 0, 0)" "(1/2, 0, 0)" "[(- 1/4, 0, 0), (1/4, 0, 0)]" "1/10000"] found
  have inside: "(0::nat) < length [(- 1/4, 0, 0), (1/4, 0, 0) :: kvec] \<and>
    within_tol [(- 1/4, 0, 0), (1/4, 0, 0)] (1/4, 0, 0) (1/2, 0, 0) (1/10000) 0 (1, 0, 0)"
    by blast
  from neighbor_k_search_finds_neighbor
    [of "(0, 0, 0)" "(1/2, 0, 0)" "[(0, 0, 0), (1/3, 0, 0)]" "1/10000"] failed
  have "\<not> (\<exists>kk<length [(0, 0, 0), (1/3, 0, 0) :: kvec]. \<exists>k0.
      within_tol [(0, 0, 0), (1/3, 0, 0)] (0, 0, 0) (1/2, 0, 0) (1/10000) kk k0)"
    by blast
  then have outside:
    "\<not> within_tol [(0, 0, 0), (1/3, 0, 0)] (0, 0, 0) (1/2, 0, 0) (1/10000) 1 (0, 0, 0)"
    by (metis length_Cons list.size(3) One_nat_def lessI)
  have pos: "(0::real) < 1/10000" by simp
  from pos exact found inside failed outside show ?thesis by blast
qed

end
